theory Spec2Isabelle
  imports Complex_Main "HOL-Library.Word" "HOL-Library.Sublist"
begin

section \<open>JavaScript strings\<close>

text \<open>
  A JavaScript string is a sequence of UTF-16 code units. String literals of the source
  that are plain ASCII are written with \<open>lit\<close>; a character outside ASCII is written
  as its code unit.
\<close>

type_synonym code_unit = "16 word"
type_synonym jsstring = "code_unit list"

definition lit :: "string \<Rightarrow> jsstring" where
  "lit s = map of_char s"

text \<open>
  \<open>String.prototype.trim\<close> removes leading and trailing WhiteSpace and LineTerminator
  code points: TAB, LF, VT, FF, CR, SPACE, NBSP, U+1680, U+2000 to U+200A, U+2028, U+2029,
  U+202F, U+205F, U+3000 and U+FEFF.
\<close>

definition is_whitespace :: "code_unit \<Rightarrow> bool" where
  "is_whitespace c \<longleftrightarrow>
     c \<in> set [0x9, 0xA, 0xB, 0xC, 0xD, 0x20, 0xA0, 0x1680,
                0x2000, 0x2001, 0x2002, 0x2003, 0x2004, 0x2005, 0x2006, 0x2007, 0x2008,
                0x2009, 0x200A, 0x2028, 0x2029, 0x202F, 0x205F, 0x3000, 0xFEFF]"

definition trim :: "jsstring \<Rightarrow> jsstring" where
  "trim s = rev (dropWhile is_whitespace (rev (dropWhile is_whitespace s)))"

text \<open>\<open>a || b\<close> on strings: the empty string is the only falsy string.\<close>

definition or_else :: "jsstring \<Rightarrow> jsstring \<Rightarrow> jsstring" where
  "or_else a b = (if a = [] then b else a)"

text \<open>\<open>s.includes(sub)\<close>: \<open>sub\<close> occurs in \<open>s\<close> as a contiguous run.\<close>

fun js_includes :: "jsstring \<Rightarrow> jsstring \<Rightarrow> bool" where
  "js_includes [] sub = (sub = [])"
| "js_includes (c # cs) sub = (prefix sub (c # cs) \<or> js_includes cs sub)"

text \<open>\<open>xs.join(sep)\<close> on an array of strings.\<close>

fun join :: "jsstring \<Rightarrow> jsstring list \<Rightarrow> jsstring" where
  "join sep [] = []"
| "join sep [x] = x"
| "join sep (x # y # ys) = x @ sep @ join sep (y # ys)"

text \<open>The decimal digits of a non-negative integer, as a template literal prints it.\<close>

function show_nat :: "nat \<Rightarrow> jsstring" where
  "show_nat n = (if n < 10 then [of_nat (48 + n)]
                 else show_nat (n div 10) @ [of_nat (48 + n mod 10)])"
  by pat_completeness auto
termination
  by (relation "measure id") auto

declare show_nat.simps [simp del]

section \<open>The data model (lib/types.ts)\<close>

datatype InputMode = ModeRecord | ModeUpload | ModeText

text \<open>The keys of \<open>DraftIdea\<close>.\<close>

datatype field =
  Title | Summary | Problem | Proposed_solution | Target_audience | Expected_impact
  | Category | Priority | Keywords

fun key_name :: "field \<Rightarrow> jsstring" where
  "key_name Title = lit ''title''"
| "key_name Summary = lit ''summary''"
| "key_name Problem = lit ''problem''"
| "key_name Proposed_solution = lit ''proposed_solution''"
| "key_name Target_audience = lit ''target_audience''"
| "key_name Expected_impact = lit ''expected_impact''"
| "key_name Category = lit ''category''"
| "key_name Priority = lit ''priority''"
| "key_name Keywords = lit ''keywords''"

text \<open>
  The values a draft holds at run time. The form reads them through \<open>(draft as any)[f]\<close>
  and tests \<open>typeof v === "string"\<close>, so a key may also be absent (\<open>undefined\<close>) or
  \<open>null\<close>, as the JSON of the backend can leave it; \<open>keywords\<close> is an array of strings.
\<close>

datatype jsval = JUndefined | JNull | JStr jsstring | JArr "jsstring list"

type_synonym DraftIdea = "field \<Rightarrow> jsval"

datatype FieldStatus = Confirmed | Guessed | Missing

record FieldMeta =
  status :: FieldStatus
  confidence :: real

record ExtractionResponse =
  er_draft :: DraftIdea
  er_field_meta :: "(field \<rightharpoonup> FieldMeta) option"
  er_missing_fields :: "field list option"
  er_questions :: "jsstring list option"

record ClarifyResponse =
  cr_draft :: DraftIdea
  cr_field_meta :: "(field \<rightharpoonup> FieldMeta) option"
  cr_missing_fields :: "field list option"
  cr_questions :: "jsstring list option"

record SubmitResponse =
  sr_id :: jsstring

section \<open>The HTTP client (lib/api.ts)\<close>

datatype js_error = JsError (message: jsstring)

datatype body =
  ClarifyBody DraftIdea jsstring "jsstring list"
  | SubmitBody jsstring "jsstring option" "jsstring option" DraftIdea

record request_init =
  init_method :: jsstring
  init_headers :: "(jsstring \<times> jsstring) list"
  init_body :: body

record request =
  req_url :: jsstring
  req_method :: jsstring
  req_headers :: "(jsstring \<times> jsstring) list"
  req_body :: body

text \<open>
  What \<open>fetch\<close> resolves with. \<open>res_text\<close> is \<open>None\<close> when \<open>res.text()\<close> rejects;
  \<open>res_json\<close> is the outcome of \<open>res.json()\<close>, already read at the type the caller casts
  it to.
\<close>

record 'a response =
  res_ok :: bool
  res_status :: nat
  res_statusText :: jsstring
  res_text :: "jsstring option"
  res_json :: "js_error + 'a"

datatype 'a fetch_result = Rejected js_error | Resolved "'a response"

text \<open>
  The network: the value of the environment variable \<open>NEXT_PUBLIC_API_BASE_URL\<close> and the
  behaviour of \<open>fetch\<close>.
\<close>

record 'a network =
  api_base_url :: "jsstring option"
  fetch :: "request \<Rightarrow> 'a fetch_result"

text \<open>\<open>s.replace(/\/$/, "")\<close>: one trailing slash is removed.\<close>

definition strip_trailing_slash :: "jsstring \<Rightarrow> jsstring" where
  "strip_trailing_slash s = (if s \<noteq> [] \<and> last s = 0x2F then butlast s else s)"

definition BASE :: "jsstring option \<Rightarrow> jsstring" where
  "BASE env =
     or_else (case env of None \<Rightarrow> [] | Some s \<Rightarrow> strip_trailing_slash s)
       (lit ''http://localhost:8000'')"

text \<open>
  \<open>http\<close> returns the requests it sent (always exactly one) and either the error it
  throws or the parsed body.
\<close>

definition http :: "'a network \<Rightarrow> jsstring \<Rightarrow> request_init \<Rightarrow> request list \<times> (js_error + 'a)" where
  "http net path init =
     (let req = \<lparr>req_url = BASE (api_base_url net) @ path, req_method = init_method init,
                  req_headers = init_headers init, req_body = init_body init\<rparr>
      in ([req],
          (case fetch net req of
             Rejected e \<Rightarrow> Inl e
           | Resolved res \<Rightarrow>
               if \<not> res_ok res then
                 (let txt = (case res_text res of None \<Rightarrow> [] | Some t \<Rightarrow> t)
                  in Inl (JsError (lit ''API '' @ show_nat (res_status res) @ lit '': ''
                                   @ or_else txt (res_statusText res))))
               else res_json res)))"

definition clarifyIdea ::
  "ClarifyResponse network \<Rightarrow> DraftIdea \<Rightarrow> jsstring \<Rightarrow> jsstring list
     \<Rightarrow> request list \<times> (js_error + ClarifyResponse)" where
  "clarifyIdea net d answers_text qs =
     http net (lit ''/v1/voice/clarify'')
       \<lparr>init_method = lit ''POST'',
        init_headers = [(lit ''Content-Type'', lit ''application/json'')],
        init_body = ClarifyBody d answers_text qs\<rparr>"

definition submitIdea ::
  "SubmitResponse network \<Rightarrow> jsstring \<Rightarrow> jsstring option \<Rightarrow> jsstring option \<Rightarrow> DraftIdea
     \<Rightarrow> request list \<times> (js_error + SubmitResponse)" where
  "submitIdea net tr lang dialect d =
     http net (lit ''/v1/ideas'')
       \<lparr>init_method = lit ''POST'',
        init_headers = [(lit ''Content-Type'', lit ''application/json'')],
        init_body = SubmitBody tr lang dialect d\<rparr>"

section \<open>The form (components/IdeaForm.tsx)\<close>

definition REQUIRED_FIELDS :: "field list" where
  "REQUIRED_FIELDS =
     [Title, Summary, Problem, Proposed_solution, Target_audience, Expected_impact]"

text \<open>
  \<open>labelOf\<close>: \<open>k.replace(/_/g, " ").replace(/\b\w/g, (c) => c.toUpperCase())\<close>. A word
  character is one of \<open>[A-Za-z0-9_]\<close>; \<open>\b\w\<close> matches a word character that does not
  follow one.
\<close>

definition is_word_char :: "code_unit \<Rightarrow> bool" where
  "is_word_char c \<longleftrightarrow>
     (0x30 \<le> c \<and> c \<le> 0x39) \<or> (0x41 \<le> c \<and> c \<le> 0x5A) \<or> c = 0x5F \<or> (0x61 \<le> c \<and> c \<le> 0x7A)"

definition toUpperCase_unit :: "code_unit \<Rightarrow> code_unit" where
  "toUpperCase_unit c = (if 0x61 \<le> c \<and> c \<le> 0x7A then c - 0x20 else c)"

fun upcase_word_starts :: "bool \<Rightarrow> jsstring \<Rightarrow> jsstring" where
  "upcase_word_starts after_word [] = []"
| "upcase_word_starts after_word (c # cs) =
     (if is_word_char c \<and> \<not> after_word then toUpperCase_unit c else c)
       # upcase_word_starts (is_word_char c) cs"

definition labelOf :: "field \<Rightarrow> jsstring" where
  "labelOf k =
     upcase_word_starts False (map (\<lambda>c. if c = 0x5F then 0x20 else c) (key_name k))"

datatype toast_type = Ok | Err

text \<open>
  The state of the form: its \<open>useState\<close> hooks, and what it has done to the outside: the
  requests sent, in order, and the delays of the timeouts set with \<open>window.setTimeout\<close>.
\<close>

record form_state =
  draft :: DraftIdea
  questions :: "jsstring list"
  missingFields :: "field list"
  fieldMeta :: "field \<rightharpoonup> FieldMeta"
  answersText :: jsstring
  isClarifying :: bool
  isSubmitting :: bool
  isRecordingAnswer :: bool
  isTranscribing :: bool
  toast :: "(toast_type \<times> jsstring) option"
  sent :: "request list"
  timeouts :: "nat list"

record form_props =
  transcript :: jsstring
  language :: "jsstring option"
  dialect_hint :: "jsstring option"

text \<open>The state of a form that has just been mounted on an extraction result.\<close>

definition initial_form :: "ExtractionResponse \<Rightarrow> form_state" where
  "initial_form ex =
     \<lparr>draft = er_draft ex,
      questions = (case er_questions ex of None \<Rightarrow> [] | Some qs \<Rightarrow> qs),
      missingFields = (case er_missing_fields ex of None \<Rightarrow> [] | Some fs \<Rightarrow> fs),
      fieldMeta = (case er_field_meta ex of None \<Rightarrow> Map.empty | Some m \<Rightarrow> m),
      answersText = [], isClarifying = False, isSubmitting = False,
      isRecordingAnswer = False, isTranscribing = False, toast = None,
      sent = [], timeouts = []\<rparr>"

definition truthy :: "jsval \<Rightarrow> bool" where
  "truthy v = (case v of JUndefined \<Rightarrow> False | JNull \<Rightarrow> False
               | JStr s \<Rightarrow> s \<noteq> [] | JArr xs \<Rightarrow> True)"

text \<open>\<open>typeof v === "string" ? v.trim().length > 0 : !!v\<close>\<close>

definition filled :: "jsval \<Rightarrow> bool" where
  "filled v = (case v of JStr s \<Rightarrow> length (trim s) > 0 | _ \<Rightarrow> truthy v)"

text \<open>
  \<open>Math.round\<close> rounds to the nearest integer, a tie upwards. The source computes
  \<open>(have / 6) * 100\<close> in double precision; \<open>have\<close> is at most 6 and each of the seven
  exact values is an integer or a sixth or more away from a tie, so the rounding of the
  double is the rounding of the exact quotient, which is what the model computes.
\<close>

definition Math_round :: "real \<Rightarrow> int" where
  "Math_round x = \<lfloor>x + 1 / 2\<rfloor>"

definition completeness :: "DraftIdea \<Rightarrow> int" where
  "completeness d =
     (let have = length (filter (\<lambda>f. filled (d f)) REQUIRED_FIELDS)
      in Math_round ((real have / real (length REQUIRED_FIELDS)) * 100))"

definition stillMissing :: "DraftIdea \<Rightarrow> field list" where
  "stillMissing d = filter (\<lambda>f. \<not> filled (d f)) REQUIRED_FIELDS"

definition updateField :: "field \<Rightarrow> jsval \<Rightarrow> form_state \<Rightarrow> form_state" where
  "updateField k v s =
     s\<lparr>draft := (draft s)(k := v),
       fieldMeta := (fieldMeta s)(k \<mapsto> \<lparr>status = Confirmed, confidence = 1\<rparr>)\<rparr>"

text \<open>
  \<open>showToast\<close> shows the notification and sets a timeout of 3500 ms; when a timeout
  fires, its callback clears the notification.
\<close>

definition showToast :: "toast_type \<Rightarrow> jsstring \<Rightarrow> form_state \<Rightarrow> form_state" where
  "showToast ty txt s = s\<lparr>toast := Some (ty, txt), timeouts := timeouts s @ [3500]\<rparr>"

definition timeout_fires :: "form_state \<Rightarrow> form_state" where
  "timeout_fires s = s\<lparr>toast := None, timeouts := tl (timeouts s)\<rparr>"

text \<open>
  \<open>runClarification\<close>, from the click to the end of its \<open>finally\<close> block. The request
  carries the values of the render in which the handler was created.
\<close>

definition runClarification :: "ClarifyResponse network \<Rightarrow> form_state \<Rightarrow> form_state" where
  "runClarification net s =
     (if trim (answersText s) = [] then
        showToast Err (lit ''Type or record your answers first (one message is fine).'') s
      else
        (let s1 = s\<lparr>isClarifying := True\<rparr>;
             (reqs, r) = clarifyIdea net (draft s) (answersText s) (questions s);
             s2 = s1\<lparr>sent := sent s1 @ reqs\<rparr>;
             s3 = (case r of
                     Inr res \<Rightarrow>
                       showToast Ok (lit ''Updated with your clarification '' @ [0x2705])
                         (s2\<lparr>draft := cr_draft res,
                             fieldMeta := (case cr_field_meta res of None \<Rightarrow> Map.empty | Some m \<Rightarrow> m),
                             missingFields := (case cr_missing_fields res of None \<Rightarrow> [] | Some fs \<Rightarrow> fs),
                             questions := (case cr_questions res of None \<Rightarrow> [] | Some qs \<Rightarrow> qs),
                             answersText := []\<rparr>)
                   | Inl e \<Rightarrow> showToast Err (or_else (message e) (lit ''Clarification failed.'')) s2)
         in s3\<lparr>isClarifying := False\<rparr>))"

text \<open>\<open>runSubmit\<close>, likewise.\<close>

definition runSubmit :: "form_props \<Rightarrow> SubmitResponse network \<Rightarrow> form_state \<Rightarrow> form_state" where
  "runSubmit props net s =
     (if length (stillMissing (draft s)) > 0 then
        showToast Err (lit ''Missing required fields: ''
                       @ join (lit '', '') (map labelOf (stillMissing (draft s)))) s
      else
        (let s1 = s\<lparr>isSubmitting := True\<rparr>;
             (reqs, r) = submitIdea net (transcript props) (language props) (dialect_hint props)
                           (draft s);
             s2 = s1\<lparr>sent := sent s1 @ reqs\<rparr>;
             s3 = (case r of
                     Inr res \<Rightarrow>
                       showToast Ok (lit ''Submitted '' @ [0x2705] @ lit '' (id: '' @ sr_id res
                                     @ lit '')'') s2
                   | Inl e \<Rightarrow> showToast Err (or_else (message e) (lit ''Submit failed.'')) s2)
         in s3\<lparr>isSubmitting := False\<rparr>))"

section \<open>The page (app/page.tsx)\<close>

type_synonym bytes = "8 word list"

text \<open>A \<open>File\<close>: its name, its MIME type and its content.\<close>

record js_file =
  file_name :: jsstring
  file_type :: jsstring
  file_data :: bytes

record TranscribeResponse =
  tr_transcript :: "jsstring option"
  tr_language :: jsstring
  tr_dialect_hint :: "jsstring option"

record page_state =
  mode :: InputMode
  audioFile :: "js_file option"
  manualText :: jsstring
  transcribe :: "TranscribeResponse option"
  extraction :: "ExtractionResponse option"
  busy :: bool
  error :: "jsstring option"

text \<open>
  \<open>transcriptText\<close>: the typed text in text mode, the transcription otherwise;
  \<open>transcribe?.transcript?.trim() || ""\<close> is the empty string when there is none.
\<close>

definition transcriptText :: "page_state \<Rightarrow> jsstring" where
  "transcriptText s =
     (if mode s = ModeText then trim (manualText s)
      else or_else (case transcribe s of None \<Rightarrow> []
                    | Some t \<Rightarrow> (case tr_transcript t of None \<Rightarrow> [] | Some x \<Rightarrow> trim x)) [])"

text \<open>
  The \<open>setMode\<close> handler the page passes to the mode selector; the selector calls it with
  the key of the card that was clicked, the active one included.
\<close>

definition ModeSelector_setMode :: "InputMode \<Rightarrow> page_state \<Rightarrow> page_state" where
  "ModeSelector_setMode m s =
     s\<lparr>mode := m, audioFile := None, transcribe := None, extraction := None, error := None\<rparr>"

text \<open>A sequence of mode selections, one after the other.\<close>

fun select_modes :: "InputMode list \<Rightarrow> page_state \<Rightarrow> page_state" where
  "select_modes [] s = s"
| "select_modes (m # ms) s = select_modes ms (ModeSelector_setMode m s)"

section \<open>The recorder (components/AudioRecorder.tsx)\<close>

text \<open>
  What the browser provides: whether \<open>MediaRecorder\<close> exists, its optional static
  method \<open>isTypeSupported\<close>, and the \<open>mimeType\<close> a recorder reports when it was
  constructed with a given \<open>mimeType\<close> option (\<open>None\<close>: constructed without options).
\<close>

record media_env =
  MediaRecorder_defined :: bool
  isTypeSupported :: "(jsstring \<Rightarrow> bool) option"
  recorder_mimeType :: "jsstring option \<Rightarrow> jsstring"

definition candidates :: "jsstring list" where
  "candidates =
     [lit ''audio/webm;codecs=opus'', lit ''audio/webm'', lit ''audio/ogg;codecs=opus'',
      lit ''audio/ogg'']"

text \<open>
  The test of the loop body:
  \<open>typeof MediaRecorder !== "undefined" && MediaRecorder.isTypeSupported?.(c)\<close>.
\<close>

definition type_supported :: "media_env \<Rightarrow> jsstring \<Rightarrow> bool" where
  "type_supported env c \<longleftrightarrow>
     MediaRecorder_defined env \<and> (case isTypeSupported env of None \<Rightarrow> False | Some p \<Rightarrow> p c)"

fun first_supported :: "media_env \<Rightarrow> jsstring list \<Rightarrow> jsstring" where
  "first_supported env [] = []"
| "first_supported env (c # cs) = (if type_supported env c then c else first_supported env cs)"

definition pickMimeType :: "media_env \<Rightarrow> jsstring" where
  "pickMimeType env = first_supported env candidates"

text \<open>A \<open>Blob\<close>, and the \<open>MediaRecorder\<close> objects the component creates.\<close>

record blob =
  blob_data :: bytes
  blob_type :: jsstring

text \<open>
  The constructors of \<open>Blob\<close> and \<open>File\<close> do not keep the \<open>type\<close> option as
  it is given: a type with a character outside U+0020 to U+007E becomes the empty string,
  and any other type is converted to ASCII lower case.
\<close>

definition ascii_lower :: "code_unit \<Rightarrow> code_unit" where
  "ascii_lower c = (if 0x41 \<le> c \<and> c \<le> 0x5A then c + 0x20 else c)"

definition normalize_type :: "jsstring \<Rightarrow> jsstring" where
  "normalize_type t =
     (if list_all (\<lambda>c. 0x20 \<le> c \<and> c \<le> 0x7E) t then map ascii_lower t else [])"

record recorder_obj =
  ro_stream :: nat
  ro_mimeType :: jsstring

text \<open>
  The component's hooks and refs, then the part of the browser it acts on: the
  \<open>getUserMedia\<close> calls not yet settled, the number of streams handed out (stream
  \<open>n\<close> is the \<open>n\<close>-th one), the recorders whose \<open>stop\<close> event is queued, the
  streams whose tracks were stopped, one entry per call and in call order, the files given to
  \<open>onRecordedFile\<close>, and the running intervals.
\<close>

record recorder_state =
  supported :: bool
  permissionError :: "jsstring option"
  isRecording :: bool
  seconds :: nat
  audioUrl :: "blob option"
  streamRef :: "nat option"
  recorderRef :: "recorder_obj option"
  chunksRef :: "bytes list"
  timerRef :: "nat option"
  pending_getUserMedia :: nat
  streams_opened :: nat
  stop_queue :: "recorder_obj list"
  released :: "nat list"
  recorded_files :: "js_file list"
  intervals :: "nat list"
  next_interval :: nat

text \<open>The state after mounting: the effect has read \<open>window.MediaRecorder\<close>.\<close>

definition mounted :: "media_env \<Rightarrow> recorder_state" where
  "mounted env =
     \<lparr>supported = MediaRecorder_defined env, permissionError = None, isRecording = False,
      seconds = 0, audioUrl = None, streamRef = None, recorderRef = None, chunksRef = [],
      timerRef = None, pending_getUserMedia = 0, streams_opened = 0, stop_queue = [],
      released = [], recorded_files = [], intervals = [], next_interval = 1\<rparr>"

definition stopTimer :: "recorder_state \<Rightarrow> recorder_state" where
  "stopTimer w =
     (case timerRef w of
        None \<Rightarrow> w
      | Some i \<Rightarrow> if i \<noteq> 0 then w\<lparr>intervals := removeAll i (intervals w), timerRef := None\<rparr>
                  else w)"

definition startTimer :: "recorder_state \<Rightarrow> recorder_state" where
  "startTimer w =
     (let w1 = stopTimer w; i = next_interval w1
      in w1\<lparr>timerRef := Some i, intervals := i # intervals w1, next_interval := i + 1\<rparr>)"

text \<open>\<open>start\<close> up to its \<open>await\<close>: the three resets, and the call of \<open>getUserMedia\<close>.\<close>

definition start_call :: "recorder_state \<Rightarrow> recorder_state" where
  "start_call w =
     w\<lparr>permissionError := None, audioUrl := None, seconds := 0,
       pending_getUserMedia := pending_getUserMedia w + 1\<rparr>"

text \<open>
  \<open>start\<close> after the \<open>await\<close>, when the promise is fulfilled with a new stream: the
  rest of the \<open>try\<close> block. The constructor of the recorder and \<open>rec.start()\<close> are
  taken not to throw: the type asked for is one the browser supports, or none.
\<close>

definition start_granted :: "media_env \<Rightarrow> recorder_state \<Rightarrow> recorder_state" where
  "start_granted env w =
     (let stream = streams_opened w;
          mimeType = pickMimeType env;
          rec = \<lparr>ro_stream = stream,
                 ro_mimeType = recorder_mimeType env (if mimeType \<noteq> [] then Some mimeType else None)\<rparr>
      in startTimer
           (w\<lparr>pending_getUserMedia := pending_getUserMedia w - 1,
              streams_opened := stream + 1,
              streamRef := Some stream, chunksRef := [], recorderRef := Some rec,
              isRecording := True\<rparr>))"

text \<open>
  \<open>start\<close> after the \<open>await\<close>, when the promise is rejected: the \<open>catch\<close> block, with
  \<open>err?.message\<close> (\<open>None\<close>: undefined).
\<close>

definition start_denied :: "jsstring option \<Rightarrow> recorder_state \<Rightarrow> recorder_state" where
  "start_denied msg w =
     w\<lparr>pending_getUserMedia := pending_getUserMedia w - 1,
       permissionError :=
         Some (or_else (case msg of None \<Rightarrow> [] | Some m \<Rightarrow> m) (lit ''Microphone permission denied.''))\<rparr>"

text \<open>\<open>rec.ondataavailable\<close>, with \<open>e.data\<close> (\<open>None\<close>: no data).\<close>

definition ondataavailable :: "bytes option \<Rightarrow> recorder_state \<Rightarrow> recorder_state" where
  "ondataavailable d w =
     (case d of
        None \<Rightarrow> w
      | Some b \<Rightarrow> if length b > 0 then w\<lparr>chunksRef := chunksRef w @ [b]\<rparr> else w)"

text \<open>
  \<open>rec.onstop\<close>, for the recorder \<open>rec\<close> of the closure. The blob and the file are
  both constructed with the option \<open>type: rec.mimeType || "audio/webm"\<close>; the extension is
  read from that string as it is.
\<close>

definition onstop :: "recorder_obj \<Rightarrow> recorder_state \<Rightarrow> recorder_state" where
  "onstop rec w =
     (let b = \<lparr>blob_data = concat (chunksRef w),
               blob_type = normalize_type (or_else (ro_mimeType rec) (lit ''audio/webm''))\<rparr>;
          ext = (if js_includes (or_else (ro_mimeType rec) (lit ''audio/webm'')) (lit ''ogg'')
                 then lit ''ogg'' else lit ''webm'');
          f = \<lparr>file_name = lit ''recording.'' @ ext,
               file_type = normalize_type (or_else (ro_mimeType rec) (lit ''audio/webm'')),
               file_data = blob_data b\<rparr>
      in w\<lparr>audioUrl := Some b,
           recorded_files := recorded_files w @ [f],
           released := (case streamRef w of None \<Rightarrow> released w | Some st \<Rightarrow> released w @ [st]),
           streamRef := None\<rparr>)"

text \<open>
  \<open>stop\<close>. \<open>MediaRecorder.stop()\<close> does not run \<open>onstop\<close> itself: it queues the
  \<open>stop\<close> event of the recorder. A recorder is taken to stop only when \<open>stop\<close> is
  called on it.
\<close>

definition stop :: "recorder_state \<Rightarrow> recorder_state" where
  "stop w =
     (let w1 = (stopTimer w)\<lparr>isRecording := False\<rparr>
      in (case recorderRef w1 of
            None \<Rightarrow> w1
          | Some rec \<Rightarrow> w1\<lparr>stop_queue := stop_queue w1 @ [rec], recorderRef := None\<rparr>))"

text \<open>
  What can happen to the mounted component: a click on its one button (rendered when
  recording is supported; \<open>onClick={isRecording ? stop : start}\<close>), the settling of the
  oldest pending \<open>getUserMedia\<close> call, a \<open>dataavailable\<close> event, the first queued
  \<open>stop\<close> event, and a tick of an interval.
\<close>

datatype recorder_event =
  Click
  | MediaGranted
  | MediaDenied "jsstring option"
  | DataAvailable "bytes option"
  | RecorderStopped
  | Tick nat

fun recorder_step :: "media_env \<Rightarrow> recorder_event \<Rightarrow> recorder_state \<Rightarrow> recorder_state" where
  "recorder_step env Click w =
     (if supported w then (if isRecording w then stop w else start_call w) else w)"
| "recorder_step env MediaGranted w =
     (if pending_getUserMedia w > 0 then start_granted env w else w)"
| "recorder_step env (MediaDenied msg) w =
     (if pending_getUserMedia w > 0 then start_denied msg w else w)"
| "recorder_step env (DataAvailable d) w = ondataavailable d w"
| "recorder_step env RecorderStopped w =
     (case stop_queue w of [] \<Rightarrow> w | rec # q \<Rightarrow> onstop rec (w\<lparr>stop_queue := q\<rparr>))"
| "recorder_step env (Tick i) w =
     (if i \<in> set (intervals w) then w\<lparr>seconds := seconds w + 1\<rparr> else w)"

fun recorder_run :: "media_env \<Rightarrow> recorder_event list \<Rightarrow> recorder_state \<Rightarrow> recorder_state" where
  "recorder_run env [] w = w"
| "recorder_run env (e # es) w = recorder_run env es (recorder_step env e w)"

text \<open>
  One recording session, from the click on Start to the \<open>stop\<close> event, with the
  \<open>dataavailable\<close> events before the click on Stop and those between that click and
  the \<open>stop\<close> event.
\<close>

definition session :: "bytes option list \<Rightarrow> bytes option list \<Rightarrow> recorder_event list" where
  "session ds ds' =
     [Click, MediaGranted] @ map DataAvailable ds @ [Click] @ map DataAvailable ds'
       @ [RecorderStopped]"

section \<open>Notions used in the statements\<close>

text \<open>
  A value that is empty as written: absent, \<open>null\<close> or the string of length zero; and a
  value that is blank: absent, \<open>null\<close> or a string of nothing but whitespace.
\<close>

definition literally_empty :: "jsval \<Rightarrow> bool" where
  "literally_empty v \<longleftrightarrow> v = JUndefined \<or> v = JNull \<or> v = JStr []"

definition nonempty :: "jsval \<Rightarrow> bool" where
  "nonempty v \<longleftrightarrow> \<not> literally_empty v"

definition blank :: "jsval \<Rightarrow> bool" where
  "blank v = (case v of JUndefined \<Rightarrow> True | JNull \<Rightarrow> True
              | JStr s \<Rightarrow> list_all is_whitespace s | JArr xs \<Rightarrow> False)"

definition nonblank :: "jsval \<Rightarrow> bool" where
  "nonblank v \<longleftrightarrow> \<not> blank v"

text \<open>The required fields whose value has a property, in the order of the form.\<close>

definition required_where :: "(jsval \<Rightarrow> bool) \<Rightarrow> DraftIdea \<Rightarrow> field list" where
  "required_where P d = filter (\<lambda>f. P (d f)) REQUIRED_FIELDS"

text \<open>A remote call has failed: \<open>fetch\<close> was rejected, or the response is not 2xx.\<close>

definition remote_call_failed :: "'a fetch_result \<Rightarrow> bool" where
  "remote_call_failed r = (case r of Rejected e \<Rightarrow> True | Resolved res \<Rightarrow> \<not> res_ok res)"

text \<open>
  The chunks the recorder keeps of the data of its \<open>dataavailable\<close> events, and all the
  data of these events, chunk after chunk.
\<close>

definition kept :: "bytes option list \<Rightarrow> bytes list" where
  "kept ds = concat (map (\<lambda>d. case d of None \<Rightarrow> [] | Some b \<Rightarrow> if length b > 0 then [b] else []) ds)"

definition delivered :: "bytes option list \<Rightarrow> bytes" where
  "delivered ds = concat (map (\<lambda>d. case d of None \<Rightarrow> [] | Some b \<Rightarrow> b) ds)"

text \<open>
  The type string of a recording: what the recorder reports for the type the component
  asked for, or \<open>audio/webm\<close> when it reports none; and the blob and the file of a
  recording.
\<close>

definition reported_type :: "media_env \<Rightarrow> jsstring" where
  "reported_type env =
     or_else (recorder_mimeType env (if pickMimeType env \<noteq> [] then Some (pickMimeType env) else None))
       (lit ''audio/webm'')"

definition recording_blob :: "media_env \<Rightarrow> bytes \<Rightarrow> blob" where
  "recording_blob env data =
     \<lparr>blob_data = data, blob_type = normalize_type (reported_type env)\<rparr>"

definition recording_file :: "media_env \<Rightarrow> bytes \<Rightarrow> js_file" where
  "recording_file env data =
     \<lparr>file_name = lit ''recording.''
                   @ (if sublist (lit ''ogg'') (reported_type env) then lit ''ogg'' else lit ''webm''),
      file_type = normalize_type (reported_type env), file_data = data\<rparr>"

text \<open>
  A recorder at rest: its button is there, it is not recording, it holds no recorder and
  no stream, and nothing is pending.
\<close>

definition quiet :: "recorder_state \<Rightarrow> bool" where
  "quiet w \<longleftrightarrow> supported w \<and> \<not> isRecording w \<and> recorderRef w = None \<and> streamRef w = None
     \<and> pending_getUserMedia w = 0 \<and> stop_queue w = []"

text \<open>
  An attempt to record that runs from the click on Start to its end before the next one
  begins: a session, or a \<open>getUserMedia\<close> call that is rejected.
\<close>

datatype attempt = Recorded "bytes option list" "bytes option list" | Refused "jsstring option"

fun attempt_events :: "attempt \<Rightarrow> recorder_event list" where
  "attempt_events (Recorded ds ds') = session ds ds'"
| "attempt_events (Refused msg) = [Click, MediaDenied msg]"

fun granted :: "attempt list \<Rightarrow> nat" where
  "granted [] = 0"
| "granted (Recorded ds ds' # as) = Suc (granted as)"
| "granted (Refused msg # as) = granted as"

section \<open>Concrete inputs\<close>

text \<open>
  The draft of the specification's scenario: an empty title, \<open>"x"\<close> in the five other
  required fields and no optional field.
\<close>

definition scenario_draft :: DraftIdea where
  "scenario_draft f =
     (case f of Title \<Rightarrow> JStr [] | Summary \<Rightarrow> JStr (lit ''x'') | Problem \<Rightarrow> JStr (lit ''x'')
      | Proposed_solution \<Rightarrow> JStr (lit ''x'') | Target_audience \<Rightarrow> JStr (lit ''x'')
      | Expected_impact \<Rightarrow> JStr (lit ''x'') | Category \<Rightarrow> JUndefined
      | Priority \<Rightarrow> JUndefined | Keywords \<Rightarrow> JUndefined)"

definition form_of_draft :: "DraftIdea \<Rightarrow> form_state" where
  "form_of_draft d =
     initial_form \<lparr>er_draft = d, er_field_meta = Some Map.empty, er_missing_fields = Some [],
                   er_questions = Some []\<rparr>"

definition no_props :: form_props where
  "no_props = \<lparr>transcript = lit ''x'', language = None, dialect_hint = None\<rparr>"

definition unreachable_backend :: "'a network" where
  "unreachable_backend =
     \<lparr>api_base_url = None, fetch = (\<lambda>req. Rejected (JsError (lit ''Failed to fetch'')))\<rparr>"

definition answering_backend :: "'a \<Rightarrow> 'a network" where
  "answering_backend r =
     \<lparr>api_base_url = None,
      fetch = (\<lambda>req. Resolved \<lparr>res_ok = True, res_status = 200, res_statusText = lit ''OK'',
                                res_text = None, res_json = Inr r\<rparr>)\<rparr>"

definition failing_backend :: "nat \<Rightarrow> jsstring \<Rightarrow> 'a network" where
  "failing_backend st b =
     \<lparr>api_base_url = None,
      fetch = (\<lambda>req. Resolved \<lparr>res_ok = False, res_status = st, res_statusText = lit ''Error'',
                                res_text = Some b, res_json = Inl (JsError (lit ''Unexpected token''))\<rparr>)\<rparr>"

definition clarify_answer :: ClarifyResponse where
  "clarify_answer =
     \<lparr>cr_draft = scenario_draft(Title := JStr (lit ''Solar lamps'')),
      cr_field_meta = Some [Title \<mapsto> \<lparr>status = Confirmed, confidence = 1\<rparr>],
      cr_missing_fields = Some [], cr_questions = Some []\<rparr>"

definition answered_form :: form_state where
  "answered_form =
     (form_of_draft scenario_draft)
       \<lparr>questions := [lit ''What is the title?''], missingFields := [Title],
        answersText := lit ''Solar lamps''\<rparr>"

definition complete_draft :: DraftIdea where
  "complete_draft = scenario_draft(Title := JStr (lit ''Solar lamps''))"

definition editing_form :: form_state where
  "editing_form = (form_of_draft complete_draft)\<lparr>answersText := lit ''more''\<rparr>"

text \<open>
  A browser that records Ogg only, and whose recorders report the type they were asked for.
\<close>

definition browser :: media_env where
  "browser =
     \<lparr>MediaRecorder_defined = True,
      isTypeSupported = Some (\<lambda>c. c = lit ''audio/ogg;codecs=opus'' \<or> c = lit ''audio/ogg''),
      recorder_mimeType = (\<lambda>opt. case opt of None \<Rightarrow> [] | Some c \<Rightarrow> c)\<rparr>"


text \<open>
  Two clicks on Start before the permission is granted, both calls granted, then one click
  on Stop and the \<open>stop\<close> event of the recorder.
\<close>

definition double_start :: "recorder_event list" where
  "double_start = [Click, Click, MediaGranted, MediaGranted, Click, RecorderStopped]"

text \<open>
  A session whose \<open>stop\<close> event fires only after the next click on Start was granted,
  then the click on Stop and the \<open>stop\<close> event of the second recorder.
\<close>

definition restart_before_stop_event :: "recorder_event list" where
  "restart_before_stop_event =
     [Click, MediaGranted, Click, Click, MediaGranted, RecorderStopped, Click, RecorderStopped]"

section \<open>Strings\<close>

lemma dropWhile_all_iff: "(\<forall>c \<in> set (dropWhile P s). P c) \<longleftrightarrow> dropWhile P s = []"
proof
  assume a: "\<forall>c \<in> set (dropWhile P s). P c"
  show "dropWhile P s = []"
  proof (rule ccontr)
    assume ne: "dropWhile P s \<noteq> []"
    then have "\<not> P (hd (dropWhile P s))" by (rule hd_dropWhile)
    moreover have "hd (dropWhile P s) \<in> set (dropWhile P s)" using ne by (rule hd_in_set)
    ultimately show False using a by blast
  qed
next
  assume e: "dropWhile P s = []"
  show "\<forall>c \<in> set (dropWhile P s). P c" unfolding e by simp
qed

lemma trim_eq_Nil_iff: "trim s = [] \<longleftrightarrow> list_all is_whitespace s"
proof -
  have "trim s = [] \<longleftrightarrow> (\<forall>c \<in> set (dropWhile is_whitespace s). is_whitespace c)"
    by (simp add: trim_def dropWhile_eq_Nil_conv)
  also have "\<dots> \<longleftrightarrow> dropWhile is_whitespace s = []"
    by (rule dropWhile_all_iff)
  also have "\<dots> \<longleftrightarrow> list_all is_whitespace s"
    by (simp add: dropWhile_eq_Nil_conv list_all_iff)
  finally show ?thesis .
qed

lemma js_includes_iff_sublist: "js_includes s sub \<longleftrightarrow> sublist sub s"
  by (induction s) (auto simp: sublist_Cons_right)

lemma sublist_join: "x \<in> set xs \<Longrightarrow> sublist x (join sep xs)"
proof (induction sep xs rule: join.induct)
  case (1 sep)
  then show ?case by simp
next
  case (2 sep y)
  then show ?case by simp
next
  case (3 sep y z zs)
  show ?case
  proof (cases "x = y")
    case True
    have "sublist y ([] @ y @ (sep @ join sep (z # zs)))" by (rule sublist_appendI)
    then show ?thesis using True by simp
  next
    case False
    with 3 have "sublist x (join sep (z # zs))" by simp
    then have "sublist x ((y @ sep) @ join sep (z # zs))" by (simp add: sublist_append)
    then show ?thesis by simp
  qed
qed

section \<open>Completeness and the submission gate\<close>

lemma filled_iff_not_blank: "filled v \<longleftrightarrow> \<not> blank v"
  by (cases v) (simp_all add: filled_def blank_def truthy_def trim_eq_Nil_iff)

lemma Math_round_sixths: "Math_round (real n / 6 * 100) = round (100 * real n / 6)"
proof -
  have "real n / 6 * 100 = 100 * real n / 6" by simp
  then show ?thesis by (simp only: Math_round_def round_def)
qed

lemma length_REQUIRED_FIELDS: "length REQUIRED_FIELDS = 6"
  by (simp add: REQUIRED_FIELDS_def)

lemma completeness_nonblank:
  "completeness d = round (100 * real (length (required_where nonblank d)) / 6)"
proof -
  have "required_where nonblank d = filter (\<lambda>f. filled (d f)) REQUIRED_FIELDS"
    by (simp add: required_where_def nonblank_def filled_iff_not_blank)
  then show ?thesis
    by (simp only: completeness_def Let_def length_REQUIRED_FIELDS Math_round_sixths of_nat_numeral)
qed

lemma stillMissing_blank: "stillMissing d = required_where blank d"
  by (simp add: stillMissing_def required_where_def filled_iff_not_blank)

lemma runSubmit_blocked:
  "stillMissing (draft s) \<noteq> [] \<Longrightarrow>
   runSubmit props net s =
     s\<lparr>toast := Some (Err, lit ''Missing required fields: ''
                          @ join (lit '', '') (map labelOf (stillMissing (draft s)))),
       timeouts := timeouts s @ [3500]\<rparr>"
  by (simp add: runSubmit_def showToast_def)

lemma labelOf_required:
  "map labelOf REQUIRED_FIELDS =
     [lit ''Title'', lit ''Summary'', lit ''Problem'', lit ''Proposed Solution'',
      lit ''Target Audience'', lit ''Expected Impact'']"
  by (simp add: REQUIRED_FIELDS_def labelOf_def lit_def is_word_char_def toUpperCase_unit_def)

lemma labelOf_Title: "labelOf Title = lit ''Title''"
  by (simp add: labelOf_def lit_def is_word_char_def toUpperCase_unit_def)

lemmas eval_defs = completeness_def REQUIRED_FIELDS_def filled_def truthy_def trim_def lit_def
  is_whitespace_def Math_round_def scenario_draft_def required_where_def nonempty_def
  literally_empty_def blank_def nonblank_def stillMissing_def

section \<open>Claims about the form\<close>

text \<open>
  Claim C2, as it is written: the completeness of every draft is
  \<open>round (100 * n / 6)\<close>, where \<open>n\<close> is the number of required fields that are not
  empty. It fails on a title of one space: the form trims a value before it looks at its
  length, so the title is not counted and the completeness is 83, where five \<open>"x"\<close> and a
  space are six values that are not empty and give 100.
\<close>

theorem completeness_of_whitespace_title:
  "completeness (scenario_draft(Title := JStr (lit '' ''))) = 83
   \<and> round (100 * real (length (required_where nonempty
                (scenario_draft(Title := JStr (lit '' ''))))) / 6) = 100"
  by (simp add: eval_defs round_def)

text \<open>
  Claim C2, amended: the completeness of every draft is \<open>round (100 * n / 6)\<close>, rounded
  to the nearest integer, where \<open>n\<close> is the number of required fields among title,
  summary, problem, proposed_solution, target_audience and expected_impact that are not
  blank, a value of nothing but whitespace being blank; a draft with a blank title and five
  other required fields that are not blank has completeness 83.
\<close>

theorem completeness_rounds_share_of_nonblank:
  "completeness d = round (100 * real (length (required_where nonblank d)) / 6)
   \<and> (blank (d Title) \<and> nonblank (d Summary) \<and> nonblank (d Problem)
        \<and> nonblank (d Proposed_solution) \<and> nonblank (d Target_audience)
        \<and> nonblank (d Expected_impact) \<longrightarrow> completeness d = 83)"
proof -
  have a: "completeness d = round (100 * real (length (required_where nonblank d)) / 6)"
    by (rule completeness_nonblank)
  have "length (required_where nonblank d) = 5"
    if "blank (d Title)" "nonblank (d Summary)" "nonblank (d Problem)"
       "nonblank (d Proposed_solution)" "nonblank (d Target_audience)"
       "nonblank (d Expected_impact)"
    using that by (simp add: required_where_def REQUIRED_FIELDS_def nonblank_def)
  then show ?thesis using a by (auto simp: round_def)
qed

theorem completeness_rounds_share_of_nonblank_witness:
  "completeness scenario_draft
     = round (100 * real (length (required_where nonblank scenario_draft)) / 6)
   \<and> blank (scenario_draft Title) \<and> nonblank (scenario_draft Summary)
   \<and> nonblank (scenario_draft Problem) \<and> nonblank (scenario_draft Proposed_solution)
   \<and> nonblank (scenario_draft Target_audience) \<and> nonblank (scenario_draft Expected_impact)
   \<and> completeness scenario_draft = 83"
  using completeness_rounds_share_of_nonblank [of scenario_draft]
  by (simp add: scenario_draft_def blank_def nonblank_def lit_def is_whitespace_def)

text \<open>
  Claim C3, as it is written: when a required field is empty, the message of the
  rejected submission lists exactly the empty required fields. It fails on an empty title
  next to a summary of one space: the message names Title and Summary, and only the title
  is empty.
\<close>

theorem runSubmit_lists_whitespace_summary:
  "toast (runSubmit no_props (unreachable_backend :: SubmitResponse network)
            (form_of_draft (scenario_draft(Summary := JStr (lit '' '')))))
     = Some (Err, lit ''Missing required fields: Title, Summary'')
   \<and> required_where literally_empty (scenario_draft(Summary := JStr (lit '' ''))) = [Title]"
  by (simp add: runSubmit_def showToast_def stillMissing_def filled_def truthy_def trim_def
      REQUIRED_FIELDS_def form_of_draft_def initial_form_def scenario_draft_def
      required_where_def literally_empty_def
      labelOf_def lit_def is_whitespace_def is_word_char_def toUpperCase_unit_def)

text \<open>
  Claim C3, amended: for every draft in which at least one of the six required fields is
  blank (empty or nothing but whitespace), a submission is rejected in the browser: the
  notification lists exactly the blank required fields by their labels, in the order of
  the form; no request is sent; and the draft and every other part of the state of the
  form are as before, the notification and its timeout apart.
\<close>

theorem runSubmit_rejects_blank_fields:
  assumes "\<exists>f \<in> set REQUIRED_FIELDS. blank (draft s f)"
  shows "runSubmit props net s =
           s\<lparr>toast := Some (Err, lit ''Missing required fields: ''
                                @ join (lit '', '') (map labelOf (required_where blank (draft s)))),
             timeouts := timeouts s @ [3500]\<rparr>
         \<and> sent (runSubmit props net s) = sent s
         \<and> draft (runSubmit props net s) = draft s
         \<and> map labelOf REQUIRED_FIELDS =
             [lit ''Title'', lit ''Summary'', lit ''Problem'', lit ''Proposed Solution'',
              lit ''Target Audience'', lit ''Expected Impact'']"
proof -
  from assms have "required_where blank (draft s) \<noteq> []"
    by (auto simp: required_where_def filter_empty_conv)
  then have ne: "stillMissing (draft s) \<noteq> []" by (simp add: stillMissing_blank)
  have eq: "runSubmit props net s =
           s\<lparr>toast := Some (Err, lit ''Missing required fields: ''
                                @ join (lit '', '') (map labelOf (required_where blank (draft s)))),
             timeouts := timeouts s @ [3500]\<rparr>"
    using runSubmit_blocked [OF ne, of props net] by (simp only: stillMissing_blank)
  show ?thesis
    apply (intro conjI)
       apply (rule eq)
      apply (simp add: eq)
     apply (simp add: eq)
    apply (rule labelOf_required)
    done
qed

theorem runSubmit_rejects_blank_fields_witness:
  "(\<exists>f \<in> set REQUIRED_FIELDS. blank (draft (form_of_draft scenario_draft) f))
   \<and> toast (runSubmit no_props (unreachable_backend :: SubmitResponse network)
              (form_of_draft scenario_draft))
       = Some (Err, lit ''Missing required fields: Title'')
   \<and> sent (runSubmit no_props (unreachable_backend :: SubmitResponse network)
             (form_of_draft scenario_draft)) = []"
proof -
  have h: "\<exists>f \<in> set REQUIRED_FIELDS. blank (draft (form_of_draft scenario_draft) f)"
    by (simp add: REQUIRED_FIELDS_def form_of_draft_def initial_form_def scenario_draft_def
        blank_def)
  have r: "required_where blank (draft (form_of_draft scenario_draft)) = [Title]"
    by (simp add: required_where_def REQUIRED_FIELDS_def form_of_draft_def initial_form_def
        scenario_draft_def blank_def lit_def is_whitespace_def)
  have s0: "sent (form_of_draft scenario_draft) = []"
    by (simp add: form_of_draft_def initial_form_def)
  from runSubmit_rejects_blank_fields
         [OF h, of no_props "unreachable_backend :: SubmitResponse network"] h r s0
  show ?thesis by (simp add: labelOf_Title lit_def)
qed

text \<open>
  Claim C4: for every field key and every prior state of the field meta, \<open>updateField\<close>
  sets the status of that field to confirmed with confidence 1, whatever its status and
  confidence were, and leaves the meta of every other field as it was.
\<close>

theorem updateField_confirms_field:
  "fieldMeta (updateField k v s) k = Some \<lparr>status = Confirmed, confidence = 1\<rparr>
   \<and> (\<forall>k'. k' \<noteq> k \<longrightarrow> fieldMeta (updateField k v s) k' = fieldMeta s k')"
  by (simp add: updateField_def)

theorem updateField_confirms_field_witness:
  "fieldMeta (updateField Title (JStr (lit ''x''))
       ((form_of_draft scenario_draft)
          \<lparr>fieldMeta := [Title \<mapsto> \<lparr>status = Missing, confidence = 0\<rparr>,
                         Summary \<mapsto> \<lparr>status = Guessed, confidence = 1 / 2\<rparr>]\<rparr>)) Title
     = Some \<lparr>status = Confirmed, confidence = 1\<rparr>
   \<and> Summary \<noteq> Title
   \<and> fieldMeta (updateField Title (JStr (lit ''x''))
       ((form_of_draft scenario_draft)
          \<lparr>fieldMeta := [Title \<mapsto> \<lparr>status = Missing, confidence = 0\<rparr>,
                         Summary \<mapsto> \<lparr>status = Guessed, confidence = 1 / 2\<rparr>]\<rparr>)) Summary
     = Some \<lparr>status = Guessed, confidence = 1 / 2\<rparr>"
  using updateField_confirms_field [of Title "JStr (lit ''x'')"
      "(form_of_draft scenario_draft)
          \<lparr>fieldMeta := [Title \<mapsto> \<lparr>status = Missing, confidence = 0\<rparr>,
                         Summary \<mapsto> \<lparr>status = Guessed, confidence = 1 / 2\<rparr>]\<rparr>"]
  by simp

text \<open>
  Claim C9: a required field whose value is a string of nothing but whitespace is treated
  as empty by the completeness and by the submission gate: it is not among the fields
  counted, the completeness is what it would be with the empty string in its place, it is
  in the list of missing fields, and a submission sends no request and shows the
  notification that lists the missing fields, its label among them.
\<close>

theorem whitespace_only_field_is_missing:
  assumes "f \<in> set REQUIRED_FIELDS" and "draft s f = JStr ws" and "list_all is_whitespace ws"
  shows "f \<notin> set (required_where filled (draft s))
         \<and> completeness (draft s) = completeness ((draft s)(f := JStr []))
         \<and> f \<in> set (stillMissing (draft s))
         \<and> sent (runSubmit props net s) = sent s
         \<and> toast (runSubmit props net s) =
             Some (Err, lit ''Missing required fields: ''
                        @ join (lit '', '') (map labelOf (stillMissing (draft s))))
         \<and> sublist (labelOf f) (join (lit '', '') (map labelOf (stillMissing (draft s))))"
proof -
  have nf: "\<not> filled (draft s f)"
    using assms(2,3) by (simp add: filled_def trim_eq_Nil_iff)
  have a: "f \<notin> set (required_where filled (draft s))"
    using nf by (simp add: required_where_def)
  have "filter (\<lambda>g. filled (((draft s)(f := JStr [])) g)) REQUIRED_FIELDS
          = filter (\<lambda>g. filled (draft s g)) REQUIRED_FIELDS"
    using nf by (intro filter_cong) (auto simp: filled_def trim_def)
  then have b: "completeness (draft s) = completeness ((draft s)(f := JStr []))"
    by (simp add: completeness_def)
  have c: "f \<in> set (stillMissing (draft s))"
    using nf assms(1) by (simp add: stillMissing_def)
  then have ne: "stillMissing (draft s) \<noteq> []" by auto
  note eq = runSubmit_blocked [OF ne, of props net]
  have d: "sent (runSubmit props net s) = sent s" by (simp add: eq)
  have e: "toast (runSubmit props net s) =
             Some (Err, lit ''Missing required fields: ''
                        @ join (lit '', '') (map labelOf (stillMissing (draft s))))"
    by (simp add: eq)
  have g: "sublist (labelOf f) (join (lit '', '') (map labelOf (stillMissing (draft s))))"
    using c by (intro sublist_join) simp
  from a b c d e g show ?thesis by blast
qed

theorem whitespace_only_field_is_missing_witness:
  "Title \<in> set REQUIRED_FIELDS
   \<and> draft (form_of_draft (scenario_draft(Title := JStr (lit ''  '')))) Title = JStr (lit ''  '')
   \<and> list_all is_whitespace (lit ''  '')
   \<and> Title \<notin> set (required_where filled (scenario_draft(Title := JStr (lit ''  ''))))
   \<and> completeness (scenario_draft(Title := JStr (lit ''  ''))) = 83
   \<and> stillMissing (scenario_draft(Title := JStr (lit ''  ''))) = [Title]
   \<and> toast (runSubmit no_props (unreachable_backend :: SubmitResponse network)
              (form_of_draft (scenario_draft(Title := JStr (lit ''  '')))))
       = Some (Err, lit ''Missing required fields: Title'')"
proof -
  let ?s = "form_of_draft (scenario_draft(Title := JStr (lit ''  '')))"
  have d: "draft ?s = scenario_draft(Title := JStr (lit ''  ''))"
    by (simp add: form_of_draft_def initial_form_def)
  have h1: "Title \<in> set REQUIRED_FIELDS" by (simp add: REQUIRED_FIELDS_def)
  have h2: "draft ?s Title = JStr (lit ''  '')" by (simp add: d)
  have h3: "list_all is_whitespace (lit ''  '')" by (simp add: lit_def is_whitespace_def)
  have c: "completeness (scenario_draft(Title := JStr [])) = 83"
    by (simp add: eval_defs)
  have m: "stillMissing (scenario_draft(Title := JStr (lit ''  ''))) = [Title]"
    by (simp add: eval_defs)
  have msg: "lit ''Missing required fields: '' @ lit ''Title''
               = lit ''Missing required fields: Title''"
    by (simp add: lit_def)
  from whitespace_only_field_is_missing
         [OF h1 h2 h3, of no_props "unreachable_backend :: SubmitResponse network"] h1 h2 h3
  show ?thesis by (simp add: d c m labelOf_Title msg)
qed

section \<open>Claims about the page\<close>

text \<open>
  Claim C5: for every state and every target mode, selecting a mode in the mode selector
  resets the audio file, the transcription result, the extraction result and the error
  message to empty (and makes the target mode the current one).
\<close>

theorem setMode_clears_derived_state:
  "audioFile (ModeSelector_setMode m s) = None
   \<and> transcribe (ModeSelector_setMode m s) = None
   \<and> extraction (ModeSelector_setMode m s) = None
   \<and> error (ModeSelector_setMode m s) = None
   \<and> mode (ModeSelector_setMode m s) = m"
  by (simp add: ModeSelector_setMode_def)

lemma manualText_select_modes: "manualText (select_modes ms s) = manualText s"
  by (induction ms arbitrary: s) (simp_all add: ModeSelector_setMode_def)

lemma mode_select_modes_snoc: "mode (select_modes (ms @ [m]) s) = m"
  by (induction ms arbitrary: s) (simp_all add: ModeSelector_setMode_def)

text \<open>
  Claim C10: selecting a mode never clears the manual text: after one selection, and
  after any sequence of selections, the manual text is what it was; and after a sequence
  that ends with the return to text mode, the transcript shown is the trimmed manual text
  again.
\<close>

theorem setMode_keeps_manualText:
  "manualText (ModeSelector_setMode m s) = manualText s
   \<and> manualText (select_modes ms s) = manualText s
   \<and> transcriptText (select_modes (ms @ [ModeText]) s) = trim (manualText s)"
  by (simp add: transcriptText_def manualText_select_modes mode_select_modes_snoc
      ModeSelector_setMode_def)

section \<open>Claims about the remote calls\<close>

lemma http_success:
  assumes "req = \<lparr>req_url = BASE (api_base_url net) @ path, req_method = init_method init,
                   req_headers = init_headers init, req_body = init_body init\<rparr>"
    and "fetch net req = Resolved res" and "res_ok res" and "res_json res = Inr r"
  shows "http net path init = ([req], Inr r)"
  using assms by (simp add: http_def Let_def)

lemma lit_Cons_ne: "lit (c # cs) @ xs \<noteq> []"
  by (simp add: lit_def)

lemma http_failure:
  assumes "req = \<lparr>req_url = BASE (api_base_url net) @ path, req_method = init_method init,
                   req_headers = init_headers init, req_body = init_body init\<rparr>"
    and "remote_call_failed (fetch net req)"
  shows "\<exists>m. http net path init = ([req], Inl (JsError m))
           \<and> (\<forall>res. fetch net req = Resolved res \<longrightarrow>
                  m \<noteq> [] \<and> sublist (show_nat (res_status res)) m
                  \<and> (\<forall>b. res_text res = Some b \<longrightarrow> sublist b m))"
proof (cases "fetch net req")
  case (Rejected e)
  then show ?thesis using assms(1) by (cases e) (simp add: http_def Let_def)
next
  case (Resolved res)
  let ?t = "case res_text res of None \<Rightarrow> [] | Some t \<Rightarrow> t"
  let ?m = "lit ''API '' @ show_nat (res_status res) @ lit '': '' @ or_else ?t (res_statusText res)"
  from Resolved assms(2) have nok: "\<not> res_ok res" by (simp add: remote_call_failed_def)
  have h: "http net path init = ([req], Inl (JsError ?m))"
    using Resolved nok assms(1) by (simp add: http_def Let_def)
  have ne: "?m \<noteq> []" by (rule lit_Cons_ne)
  have st: "sublist (show_nat (res_status res)) ?m" by (rule sublist_appendI)
  have bd: "sublist b ?m" if "res_text res = Some b" for b
  proof (cases "b = []")
    case True
    then show ?thesis by simp
  next
    case False
    with that have "?m = (lit ''API '' @ show_nat (res_status res) @ lit '': '') @ b"
      by (simp add: or_else_def)
    then show ?thesis by (simp only: sublist_append_leftI)
  qed
  from h ne st bd Resolved show ?thesis by auto
qed

lemma clarifyIdea_success:
  assumes "req = \<lparr>req_url = BASE (api_base_url net) @ lit ''/v1/voice/clarify'',
                   req_method = lit ''POST'',
                   req_headers = [(lit ''Content-Type'', lit ''application/json'')],
                   req_body = ClarifyBody d a qs\<rparr>"
    and "fetch net req = Resolved res" and "res_ok res" and "res_json res = Inr r"
  shows "clarifyIdea net d a qs = ([req], Inr r)"
  unfolding clarifyIdea_def
  by (rule http_success [where res = res]) (use assms in simp_all)

text \<open>
  Claim C6: in every successful clarification round-trip the request carries the current
  draft, the answer buffer and the outstanding questions, and it is the only request sent;
  on success the draft, the field meta, the list of missing fields and the questions are
  replaced by the values of the response (the empty map or list where the response has
  none), and the answer buffer is cleared.
\<close>

theorem runClarification_replaces_state:
  assumes "trim (answersText s) \<noteq> []"
    and "req = \<lparr>req_url = BASE (api_base_url net) @ lit ''/v1/voice/clarify'',
                   req_method = lit ''POST'',
                   req_headers = [(lit ''Content-Type'', lit ''application/json'')],
                   req_body = ClarifyBody (draft s) (answersText s) (questions s)\<rparr>"
    and "fetch net req = Resolved res" and "res_ok res" and "res_json res = Inr r"
  shows "sent (runClarification net s) = sent s @ [req]
         \<and> draft (runClarification net s) = cr_draft r
         \<and> fieldMeta (runClarification net s)
             = (case cr_field_meta r of None \<Rightarrow> Map.empty | Some m \<Rightarrow> m)
         \<and> missingFields (runClarification net s)
             = (case cr_missing_fields r of None \<Rightarrow> [] | Some fs \<Rightarrow> fs)
         \<and> questions (runClarification net s)
             = (case cr_questions r of None \<Rightarrow> [] | Some qs \<Rightarrow> qs)
         \<and> answersText (runClarification net s) = []"
proof -
  note c = clarifyIdea_success [OF assms(2-5)]
  show ?thesis using assms(1) by (simp add: runClarification_def c showToast_def)
qed

theorem runClarification_replaces_state_witness:
  "trim (answersText answered_form) \<noteq> []
   \<and> fetch (answering_backend clarify_answer)
       \<lparr>req_url = BASE (api_base_url (answering_backend clarify_answer)) @ lit ''/v1/voice/clarify'',
        req_method = lit ''POST'',
        req_headers = [(lit ''Content-Type'', lit ''application/json'')],
        req_body = ClarifyBody (draft answered_form) (answersText answered_form)
                     (questions answered_form)\<rparr>
       = Resolved \<lparr>res_ok = True, res_status = 200, res_statusText = lit ''OK'',
                   res_text = None, res_json = Inr clarify_answer\<rparr>
   \<and> map req_body (sent (runClarification (answering_backend clarify_answer) answered_form))
       = [ClarifyBody scenario_draft (lit ''Solar lamps'') [lit ''What is the title?'']]
   \<and> draft (runClarification (answering_backend clarify_answer) answered_form)
       = scenario_draft(Title := JStr (lit ''Solar lamps''))
   \<and> dom (fieldMeta (runClarification (answering_backend clarify_answer) answered_form)) = {Title}
   \<and> missingFields (runClarification (answering_backend clarify_answer) answered_form) = []
   \<and> questions (runClarification (answering_backend clarify_answer) answered_form) = []
   \<and> answersText (runClarification (answering_backend clarify_answer) answered_form) = []"
proof -
  let ?net = "answering_backend clarify_answer"
  let ?res = "\<lparr>res_ok = True, res_status = 200, res_statusText = lit ''OK'',
                   res_text = None, res_json = Inr clarify_answer\<rparr>"
  have h1: "trim (answersText answered_form) \<noteq> []"
    by (simp add: answered_form_def trim_def lit_def is_whitespace_def)
  have h3: "fetch ?net req = Resolved ?res" for req
    by (simp add: answering_backend_def)
  have h4: "res_ok ?res" by simp
  have h5: "res_json ?res = Inr clarify_answer" by simp
  have st: "draft answered_form = scenario_draft" "answersText answered_form = lit ''Solar lamps''"
    "questions answered_form = [lit ''What is the title?'']" "sent answered_form = []"
    by (simp_all add: answered_form_def form_of_draft_def initial_form_def)
  from runClarification_replaces_state [OF h1 refl h3 h4 h5] h1 h3
  show ?thesis by (simp add: st clarify_answer_def)
qed

lemma runClarification_failure:
  assumes "trim (answersText s) \<noteq> []"
    and "req = \<lparr>req_url = BASE (api_base_url net) @ lit ''/v1/voice/clarify'',
                   req_method = lit ''POST'',
                   req_headers = [(lit ''Content-Type'', lit ''application/json'')],
                   req_body = ClarifyBody (draft s) (answersText s) (questions s)\<rparr>"
    and "remote_call_failed (fetch net req)"
  shows "\<exists>msg. runClarification net s =
                 s\<lparr>isClarifying := False, toast := Some (Err, msg), sent := sent s @ [req],
                   timeouts := timeouts s @ [3500]\<rparr>
           \<and> (\<forall>res. fetch net req = Resolved res \<longrightarrow>
                  sublist (show_nat (res_status res)) msg
                  \<and> (\<forall>b. res_text res = Some b \<longrightarrow> sublist b msg))"
proof -
  from http_failure [of req net "lit ''/v1/voice/clarify''"
      "\<lparr>init_method = lit ''POST'',
        init_headers = [(lit ''Content-Type'', lit ''application/json'')],
        init_body = ClarifyBody (draft s) (answersText s) (questions s)\<rparr>"] assms(2,3)
  obtain m where h: "clarifyIdea net (draft s) (answersText s) (questions s) = ([req], Inl (JsError m))"
    and p: "\<forall>res. fetch net req = Resolved res \<longrightarrow>
                  m \<noteq> [] \<and> sublist (show_nat (res_status res)) m
                  \<and> (\<forall>b. res_text res = Some b \<longrightarrow> sublist b m)"
    unfolding clarifyIdea_def by auto
  let ?msg = "or_else m (lit ''Clarification failed.'')"
  have r: "runClarification net s =
                 s\<lparr>isClarifying := False, toast := Some (Err, ?msg), sent := sent s @ [req],
                   timeouts := timeouts s @ [3500]\<rparr>"
    using assms(1) by (simp add: runClarification_def h showToast_def)
  have "\<forall>res. fetch net req = Resolved res \<longrightarrow>
                  sublist (show_nat (res_status res)) ?msg
                  \<and> (\<forall>b. res_text res = Some b \<longrightarrow> sublist b ?msg)"
    using p by (auto simp: or_else_def)
  with r show ?thesis by blast
qed

lemma runSubmit_failure:
  assumes "stillMissing (draft s) = []"
    and "req = \<lparr>req_url = BASE (api_base_url net) @ lit ''/v1/ideas'',
                   req_method = lit ''POST'',
                   req_headers = [(lit ''Content-Type'', lit ''application/json'')],
                   req_body = SubmitBody (transcript props) (language props) (dialect_hint props)
                                (draft s)\<rparr>"
    and "remote_call_failed (fetch net req)"
  shows "\<exists>msg. runSubmit props net s =
                 s\<lparr>isSubmitting := False, toast := Some (Err, msg), sent := sent s @ [req],
                   timeouts := timeouts s @ [3500]\<rparr>
           \<and> (\<forall>res. fetch net req = Resolved res \<longrightarrow>
                  sublist (show_nat (res_status res)) msg
                  \<and> (\<forall>b. res_text res = Some b \<longrightarrow> sublist b msg))"
proof -
  from http_failure [of req net "lit ''/v1/ideas''"
      "\<lparr>init_method = lit ''POST'',
        init_headers = [(lit ''Content-Type'', lit ''application/json'')],
        init_body = SubmitBody (transcript props) (language props) (dialect_hint props)
                      (draft s)\<rparr>"] assms(2,3)
  obtain m where h: "submitIdea net (transcript props) (language props) (dialect_hint props) (draft s)
                       = ([req], Inl (JsError m))"
    and p: "\<forall>res. fetch net req = Resolved res \<longrightarrow>
                  m \<noteq> [] \<and> sublist (show_nat (res_status res)) m
                  \<and> (\<forall>b. res_text res = Some b \<longrightarrow> sublist b m)"
    unfolding submitIdea_def by auto
  let ?msg = "or_else m (lit ''Submit failed.'')"
  have r: "runSubmit props net s =
                 s\<lparr>isSubmitting := False, toast := Some (Err, ?msg), sent := sent s @ [req],
                   timeouts := timeouts s @ [3500]\<rparr>"
    using assms(1) by (simp add: runSubmit_def h showToast_def)
  have "\<forall>res. fetch net req = Resolved res \<longrightarrow>
                  sublist (show_nat (res_status res)) ?msg
                  \<and> (\<forall>b. res_text res = Some b \<longrightarrow> sublist b ?msg)"
    using p by (auto simp: or_else_def)
  with r show ?thesis by blast
qed

text \<open>
  Claim C7: when the remote call of a clarification or of a submission fails, by a network
  error or by a response that is not 2xx, the handler sends that one request and no other,
  shows an error notification, and leaves the draft, the field meta, the missing fields,
  the questions, the answer buffer and all the rest of the state as they were (its busy
  flag is off at the end); for a response that is not 2xx the text of the notification
  contains the status code and the text of the body; the notification is cleared when its
  timeout fires.
\<close>

theorem remote_failure_only_notifies:
  assumes "creq = \<lparr>req_url = BASE (api_base_url cnet) @ lit ''/v1/voice/clarify'',
                    req_method = lit ''POST'',
                    req_headers = [(lit ''Content-Type'', lit ''application/json'')],
                    req_body = ClarifyBody (draft s) (answersText s) (questions s)\<rparr>"
    and "sreq = \<lparr>req_url = BASE (api_base_url snet) @ lit ''/v1/ideas'',
                    req_method = lit ''POST'',
                    req_headers = [(lit ''Content-Type'', lit ''application/json'')],
                    req_body = SubmitBody (transcript props) (language props)
                                 (dialect_hint props) (draft s)\<rparr>"
  shows "(trim (answersText s) \<noteq> [] \<and> remote_call_failed (fetch cnet creq) \<longrightarrow>
            (\<exists>msg. runClarification cnet s =
                     s\<lparr>isClarifying := False, toast := Some (Err, msg), sent := sent s @ [creq],
                       timeouts := timeouts s @ [3500]\<rparr>
               \<and> (\<forall>res. fetch cnet creq = Resolved res \<longrightarrow>
                      sublist (show_nat (res_status res)) msg
                      \<and> (\<forall>b. res_text res = Some b \<longrightarrow> sublist b msg))))
         \<and> (stillMissing (draft s) = [] \<and> remote_call_failed (fetch snet sreq) \<longrightarrow>
            (\<exists>msg. runSubmit props snet s =
                     s\<lparr>isSubmitting := False, toast := Some (Err, msg), sent := sent s @ [sreq],
                       timeouts := timeouts s @ [3500]\<rparr>
               \<and> (\<forall>res. fetch snet sreq = Resolved res \<longrightarrow>
                      sublist (show_nat (res_status res)) msg
                      \<and> (\<forall>b. res_text res = Some b \<longrightarrow> sublist b msg))))
         \<and> toast (timeout_fires (runClarification cnet s)) = None
         \<and> toast (timeout_fires (runSubmit props snet s)) = None"
proof (intro conjI impI)
  assume "trim (answersText s) \<noteq> [] \<and> remote_call_failed (fetch cnet creq)"
  then show "\<exists>msg. runClarification cnet s =
                     s\<lparr>isClarifying := False, toast := Some (Err, msg), sent := sent s @ [creq],
                       timeouts := timeouts s @ [3500]\<rparr>
               \<and> (\<forall>res. fetch cnet creq = Resolved res \<longrightarrow>
                      sublist (show_nat (res_status res)) msg
                      \<and> (\<forall>b. res_text res = Some b \<longrightarrow> sublist b msg))"
    using runClarification_failure [OF _ assms(1)] by blast
next
  assume "stillMissing (draft s) = [] \<and> remote_call_failed (fetch snet sreq)"
  then show "\<exists>msg. runSubmit props snet s =
                     s\<lparr>isSubmitting := False, toast := Some (Err, msg), sent := sent s @ [sreq],
                       timeouts := timeouts s @ [3500]\<rparr>
               \<and> (\<forall>res. fetch snet sreq = Resolved res \<longrightarrow>
                      sublist (show_nat (res_status res)) msg
                      \<and> (\<forall>b. res_text res = Some b \<longrightarrow> sublist b msg))"
    using runSubmit_failure [OF _ assms(2)] by blast
next
  show "toast (timeout_fires (runClarification cnet s)) = None"
    by (simp add: timeout_fires_def)
next
  show "toast (timeout_fires (runSubmit props snet s)) = None"
    by (simp add: timeout_fires_def)
qed

lemma show_nat_500: "show_nat 500 = lit ''500''"
  by (simp add: show_nat.simps lit_def)

theorem remote_failure_only_notifies_witness:
  "trim (answersText editing_form) \<noteq> []
   \<and> remote_call_failed (fetch (failing_backend 500 (lit ''boom'') :: ClarifyResponse network)
        \<lparr>req_url = BASE None @ lit ''/v1/voice/clarify'', req_method = lit ''POST'',
         req_headers = [(lit ''Content-Type'', lit ''application/json'')],
         req_body = ClarifyBody complete_draft (lit ''more'') []\<rparr>)
   \<and> (\<exists>msg. runClarification (failing_backend 500 (lit ''boom'')) editing_form =
              editing_form\<lparr>isClarifying := False, toast := Some (Err, msg),
                sent := [\<lparr>req_url = BASE None @ lit ''/v1/voice/clarify'', req_method = lit ''POST'',
                          req_headers = [(lit ''Content-Type'', lit ''application/json'')],
                          req_body = ClarifyBody complete_draft (lit ''more'') []\<rparr>],
                timeouts := [3500]\<rparr>
         \<and> sublist (lit ''500'') msg \<and> sublist (lit ''boom'') msg)
   \<and> stillMissing (draft editing_form) = []
   \<and> remote_call_failed (fetch (unreachable_backend :: SubmitResponse network)
        \<lparr>req_url = BASE None @ lit ''/v1/ideas'', req_method = lit ''POST'',
         req_headers = [(lit ''Content-Type'', lit ''application/json'')],
         req_body = SubmitBody (lit ''x'') None None complete_draft\<rparr>)
   \<and> (\<exists>msg. runSubmit no_props unreachable_backend editing_form =
              editing_form\<lparr>isSubmitting := False, toast := Some (Err, msg),
                sent := [\<lparr>req_url = BASE None @ lit ''/v1/ideas'', req_method = lit ''POST'',
                          req_headers = [(lit ''Content-Type'', lit ''application/json'')],
                          req_body = SubmitBody (lit ''x'') None None complete_draft\<rparr>],
                timeouts := [3500]\<rparr>)"
proof -
  let ?cnet = "failing_backend 500 (lit ''boom'') :: ClarifyResponse network"
  let ?snet = "unreachable_backend :: SubmitResponse network"
  let ?res = "\<lparr>res_ok = False, res_status = 500, res_statusText = lit ''Error'',
               res_text = Some (lit ''boom''),
               res_json = Inl (JsError (lit ''Unexpected token'')) :: js_error + ClarifyResponse\<rparr>"
  have st: "draft editing_form = complete_draft" "answersText editing_form = lit ''more''"
    "questions editing_form = []" "sent editing_form = []" "timeouts editing_form = []"
    by (simp_all add: editing_form_def form_of_draft_def initial_form_def)
  have pr: "transcript no_props = lit ''x''" "language no_props = None"
    "dialect_hint no_props = None"
    by (simp_all add: no_props_def)
  have base: "api_base_url ?cnet = None" "api_base_url ?snet = None"
    by (simp_all add: failing_backend_def unreachable_backend_def)
  have h1: "trim (answersText editing_form) \<noteq> []"
    by (simp add: st trim_def lit_def is_whitespace_def)
  have fc: "fetch ?cnet req = Resolved ?res" for req
    by (simp add: failing_backend_def)
  have h2: "remote_call_failed (fetch ?cnet req)" for req
    by (simp add: fc remote_call_failed_def)
  have h3: "stillMissing (draft editing_form) = []"
    by (simp add: st complete_draft_def eval_defs)
  have h4: "remote_call_failed (fetch ?snet req)" for req
    by (simp add: unreachable_backend_def remote_call_failed_def)
  note t = remote_failure_only_notifies [OF refl refl, where cnet = ?cnet and s = editing_form and snet = ?snet
      and props = no_props, unfolded st pr base]
  from t h1 h2 obtain msg where
    r: "runClarification ?cnet editing_form =
          editing_form\<lparr>isClarifying := False, toast := Some (Err, msg),
            sent := [] @ [\<lparr>req_url = BASE None @ lit ''/v1/voice/clarify'', req_method = lit ''POST'',
                      req_headers = [(lit ''Content-Type'', lit ''application/json'')],
                      req_body = ClarifyBody complete_draft (lit ''more'') []\<rparr>],
            timeouts := [] @ [3500]\<rparr>"
    and p: "\<forall>res. fetch ?cnet \<lparr>req_url = BASE None @ lit ''/v1/voice/clarify'', req_method = lit ''POST'',
                      req_headers = [(lit ''Content-Type'', lit ''application/json'')],
                      req_body = ClarifyBody complete_draft (lit ''more'') []\<rparr> = Resolved res \<longrightarrow>
                      sublist (show_nat (res_status res)) msg
                      \<and> (\<forall>b. res_text res = Some b \<longrightarrow> sublist b msg)"
    by (simp only: st) blast
  from p fc have "sublist (show_nat 500) msg \<and> sublist (lit ''boom'') msg" by simp
  then have q: "sublist (lit ''500'') msg \<and> sublist (lit ''boom'') msg"
    by (simp only: show_nat_500)
  from t h3 h4 obtain msg' where
    r': "runSubmit no_props ?snet editing_form =
          editing_form\<lparr>isSubmitting := False, toast := Some (Err, msg'),
            sent := [] @ [\<lparr>req_url = BASE None @ lit ''/v1/ideas'', req_method = lit ''POST'',
                      req_headers = [(lit ''Content-Type'', lit ''application/json'')],
                      req_body = SubmitBody (lit ''x'') None None complete_draft\<rparr>],
            timeouts := [] @ [3500]\<rparr>"
    by (simp only: st) blast
  from h1 h2 h3 h4 r q r' show ?thesis by (simp only: append_Nil) blast
qed

section \<open>Claims about the recorder\<close>

lemma concat_kept: "concat (kept ds) = delivered ds"
  by (induction ds) (auto simp: kept_def delivered_def split: option.splits)

lemma kept_append: "kept (ds @ ds') = kept ds @ kept ds'"
  by (simp add: kept_def)

lemma recorder_run_append:
  "recorder_run env (es @ es') w = recorder_run env es' (recorder_run env es w)"
  by (induction es arbitrary: w) simp_all

lemma stopTimer_fields [simp]:
  "supported (stopTimer w) = supported w"
  "isRecording (stopTimer w) = isRecording w"
  "recorderRef (stopTimer w) = recorderRef w"
  "streamRef (stopTimer w) = streamRef w"
  "chunksRef (stopTimer w) = chunksRef w"
  "pending_getUserMedia (stopTimer w) = pending_getUserMedia w"
  "streams_opened (stopTimer w) = streams_opened w"
  "stop_queue (stopTimer w) = stop_queue w"
  "released (stopTimer w) = released w"
  "recorded_files (stopTimer w) = recorded_files w"
  "audioUrl (stopTimer w) = audioUrl w"
  by (simp_all add: stopTimer_def split: option.splits)

lemma startTimer_fields [simp]:
  "supported (startTimer w) = supported w"
  "isRecording (startTimer w) = isRecording w"
  "recorderRef (startTimer w) = recorderRef w"
  "streamRef (startTimer w) = streamRef w"
  "chunksRef (startTimer w) = chunksRef w"
  "pending_getUserMedia (startTimer w) = pending_getUserMedia w"
  "streams_opened (startTimer w) = streams_opened w"
  "stop_queue (startTimer w) = stop_queue w"
  "released (startTimer w) = released w"
  "recorded_files (startTimer w) = recorded_files w"
  "audioUrl (startTimer w) = audioUrl w"
  by (simp_all add: startTimer_def Let_def)

lemma data_fields:
  "supported (recorder_run env (map DataAvailable ds) w) = supported w"
  "isRecording (recorder_run env (map DataAvailable ds) w) = isRecording w"
  "recorderRef (recorder_run env (map DataAvailable ds) w) = recorderRef w"
  "streamRef (recorder_run env (map DataAvailable ds) w) = streamRef w"
  "chunksRef (recorder_run env (map DataAvailable ds) w) = chunksRef w @ kept ds"
  "pending_getUserMedia (recorder_run env (map DataAvailable ds) w) = pending_getUserMedia w"
  "streams_opened (recorder_run env (map DataAvailable ds) w) = streams_opened w"
  "stop_queue (recorder_run env (map DataAvailable ds) w) = stop_queue w"
  "released (recorder_run env (map DataAvailable ds) w) = released w"
  "recorded_files (recorder_run env (map DataAvailable ds) w) = recorded_files w"
  "audioUrl (recorder_run env (map DataAvailable ds) w) = audioUrl w"
  by (induction ds arbitrary: w; simp add: ondataavailable_def kept_def split: option.splits)+

lemma start_call_fields [simp]:
  "supported (start_call w) = supported w"
  "isRecording (start_call w) = isRecording w"
  "recorderRef (start_call w) = recorderRef w"
  "streamRef (start_call w) = streamRef w"
  "chunksRef (start_call w) = chunksRef w"
  "pending_getUserMedia (start_call w) = pending_getUserMedia w + 1"
  "streams_opened (start_call w) = streams_opened w"
  "stop_queue (start_call w) = stop_queue w"
  "released (start_call w) = released w"
  "recorded_files (start_call w) = recorded_files w"
  "audioUrl (start_call w) = None"
  by (simp_all add: start_call_def)

lemma start_granted_fields [simp]:
  "supported (start_granted env w) = supported w"
  "isRecording (start_granted env w) = True"
  "recorderRef (start_granted env w) =
     Some \<lparr>ro_stream = streams_opened w,
           ro_mimeType = recorder_mimeType env
             (if pickMimeType env \<noteq> [] then Some (pickMimeType env) else None)\<rparr>"
  "streamRef (start_granted env w) = Some (streams_opened w)"
  "chunksRef (start_granted env w) = []"
  "pending_getUserMedia (start_granted env w) = pending_getUserMedia w - 1"
  "streams_opened (start_granted env w) = streams_opened w + 1"
  "stop_queue (start_granted env w) = stop_queue w"
  "released (start_granted env w) = released w"
  "recorded_files (start_granted env w) = recorded_files w"
  "audioUrl (start_granted env w) = audioUrl w"
  by (simp_all add: start_granted_def Let_def)

lemma start_denied_fields [simp]:
  "supported (start_denied msg w) = supported w"
  "isRecording (start_denied msg w) = isRecording w"
  "recorderRef (start_denied msg w) = recorderRef w"
  "streamRef (start_denied msg w) = streamRef w"
  "pending_getUserMedia (start_denied msg w) = pending_getUserMedia w - 1"
  "streams_opened (start_denied msg w) = streams_opened w"
  "stop_queue (start_denied msg w) = stop_queue w"
  "released (start_denied msg w) = released w"
  "recorded_files (start_denied msg w) = recorded_files w"
  by (simp_all add: start_denied_def)

lemma stop_fields [simp]:
  "supported (stop w) = supported w"
  "isRecording (stop w) = False"
  "recorderRef (stop w) = None"
  "streamRef (stop w) = streamRef w"
  "chunksRef (stop w) = chunksRef w"
  "pending_getUserMedia (stop w) = pending_getUserMedia w"
  "streams_opened (stop w) = streams_opened w"
  "stop_queue (stop w) = stop_queue w @ (case recorderRef w of None \<Rightarrow> [] | Some r \<Rightarrow> [r])"
  "released (stop w) = released w"
  "recorded_files (stop w) = recorded_files w"
  "audioUrl (stop w) = audioUrl w"
  by (simp_all add: stop_def Let_def split: option.splits)

lemma onstop_fields [simp]:
  "supported (onstop r w) = supported w"
  "isRecording (onstop r w) = isRecording w"
  "recorderRef (onstop r w) = recorderRef w"
  "streamRef (onstop r w) = None"
  "pending_getUserMedia (onstop r w) = pending_getUserMedia w"
  "streams_opened (onstop r w) = streams_opened w"
  "stop_queue (onstop r w) = stop_queue w"
  "released (onstop r w) = released w @ (case streamRef w of None \<Rightarrow> [] | Some st \<Rightarrow> [st])"
  "recorded_files (onstop r w) =
     recorded_files w @
       [\<lparr>file_name = lit ''recording.''
                      @ (if sublist (lit ''ogg'') (or_else (ro_mimeType r) (lit ''audio/webm''))
                         then lit ''ogg'' else lit ''webm''),
         file_type = normalize_type (or_else (ro_mimeType r) (lit ''audio/webm'')),
         file_data = concat (chunksRef w)\<rparr>]"
  "audioUrl (onstop r w) =
     Some \<lparr>blob_data = concat (chunksRef w),
           blob_type = normalize_type (or_else (ro_mimeType r) (lit ''audio/webm''))\<rparr>"
  by (simp_all add: onstop_def Let_def js_includes_iff_sublist split: option.splits)

lemma session_effect:
  assumes "quiet w"
  shows "quiet (recorder_run env (session ds ds') w)"
    and "streams_opened (recorder_run env (session ds ds') w) = streams_opened w + 1"
    and "released (recorder_run env (session ds ds') w) = released w @ [streams_opened w]"
    and "recorded_files (recorder_run env (session ds ds') w)
           = recorded_files w @ [recording_file env (delivered (ds @ ds'))]"
    and "audioUrl (recorder_run env (session ds ds') w)
           = Some (recording_blob env (delivered (ds @ ds')))"
  using assms
  by (simp_all add: quiet_def session_def recorder_run_append data_fields
      recording_file_def recording_blob_def reported_type_def concat_kept [symmetric]
      kept_append)

lemma refused_effect:
  assumes "quiet w"
  shows "quiet (recorder_run env [Click, MediaDenied msg] w)"
    and "streams_opened (recorder_run env [Click, MediaDenied msg] w) = streams_opened w"
    and "released (recorder_run env [Click, MediaDenied msg] w) = released w"
    and "recorded_files (recorder_run env [Click, MediaDenied msg] w) = recorded_files w"
  using assms by (simp_all add: quiet_def)

text \<open>
  When every attempt ends before the next one begins, every stream that was handed out is
  released once, in the order of the attempts, and the recorder is at rest again.
\<close>

lemma serial_attempts_release_once:
  "quiet w \<Longrightarrow>
   quiet (recorder_run env (concat (map attempt_events as)) w)
   \<and> streams_opened (recorder_run env (concat (map attempt_events as)) w)
       = streams_opened w + granted as
   \<and> released (recorder_run env (concat (map attempt_events as)) w)
       = released w @ [streams_opened w ..< streams_opened w + granted as]"
proof (induction as arbitrary: w)
  case Nil
  then show ?case by simp
next
  case (Cons a as)
  show ?case
  proof (cases a)
    case (Recorded ds ds')
    let ?w = "recorder_run env (session ds ds') w"
    note e = session_effect [OF Cons.prems, of env ds ds']
    have u: "[streams_opened w ..< streams_opened w + Suc (granted as)]
               = streams_opened w # [streams_opened w + 1 ..< streams_opened w + 1 + granted as]"
      by (simp add: upt_conv_Cons)
    have r: "recorder_run env (concat (map attempt_events (a # as))) w
               = recorder_run env (concat (map attempt_events as)) ?w"
      by (simp add: Recorded recorder_run_append)
    have g: "granted (a # as) = Suc (granted as)" by (simp add: Recorded)
    from Cons.IH [OF e(1)] show ?thesis
      by (simp only: r g u e) simp
  next
    case (Refused msg)
    let ?w = "recorder_run env [Click, MediaDenied msg] w"
    note e = refused_effect [OF Cons.prems, of env msg]
    have r: "recorder_run env (concat (map attempt_events (a # as))) w
               = recorder_run env (concat (map attempt_events as)) ?w"
      by (simp add: Refused recorder_run_append del: recorder_run.simps) simp
    have g: "granted (a # as) = granted as" by (simp add: Refused)
    from Cons.IH [OF e(1)] show ?thesis
      by (simp only: r g e)
  qed
qed










text \<open>
  Claim C1: for every sequence of start and stop interactions with the recorder, exactly
  one release of the device (stopping the tracks of the stream) occurs per successful
  start, and it occurs on stop. The component does not keep it: \<open>start\<close> can be entered
  again while its \<open>getUserMedia\<close> call is pending, since the button toggles on
  \<open>isRecording\<close>, which is set after the \<open>await\<close>. After two clicks on Start, both
  granted, and one click on Stop, two streams were handed out and only the second was
  released; the component is at rest, and nothing refers to the first stream any more.
\<close>

theorem double_start_leaks_stream:
  "streams_opened (recorder_run browser double_start (mounted browser)) = 2
   \<and> released (recorder_run browser double_start (mounted browser)) = [1]
   \<and> isRecording (recorder_run browser double_start (mounted browser)) = False
   \<and> recorderRef (recorder_run browser double_start (mounted browser)) = None
   \<and> pending_getUserMedia (recorder_run browser double_start (mounted browser)) = 0
   \<and> stop_queue (recorder_run browser double_start (mounted browser)) = []"
  by (simp add: double_start_def mounted_def browser_def)

text \<open>
  The handler \<open>onstop\<close> stops the tracks of the stream that \<open>streamRef\<close> holds when
  it runs, not those of the stream its recorder was made for: when the \<open>stop\<close> event of
  a session fires after the next session was granted, it is the stream of the new session
  that is released, and the stream of the old one never is.
\<close>

lemma late_stop_event_releases_new_stream:
  "streams_opened (recorder_run browser restart_before_stop_event (mounted browser)) = 2
   \<and> released (recorder_run browser restart_before_stop_event (mounted browser)) = [1]
   \<and> stop_queue (recorder_run browser restart_before_stop_event (mounted browser)) = []"
  by (simp add: restart_before_stop_event_def mounted_def browser_def)

end
